theory Spec2Isabelle
  imports Main
begin

section \<open>The finalize engine of the explorer: interpreter/interpreter.py\<close>

text \<open>
  A shallow embedding of \<^verbatim>\<open>src/interpreter/interpreter.py\<close> and of the operation
  loop of \<^verbatim>\<open>src/api/execute_routes.py\<close>. Python exceptions are values of the type
  \<open>error\<close>; a function that may raise returns \<open>error + 'a\<close> with \<open>Inl\<close> the
  exception. The awaits of the source only sequence I/O, so an \<^verbatim>\<open>async def\<close> is an
  ordinary function here.
\<close>

subsection \<open>Exceptions\<close>

type_synonym Field = nat
type_synonym TransitionID = string
type_synonym Identifier = string
type_synonym Plaintext = string

text \<open>
  \<open>ExecuteError message transition_id instruction\<close> is the exception class of
  \<^verbatim>\<open>interpreter.finalizer\<close>: \<^verbatim>\<open>str(e)\<close> is the message, and the source reads
  \<^verbatim>\<open>e.transition_id\<close> and \<^verbatim>\<open>e.instruction\<close>.
\<close>

datatype error =
    TypeError string
  | RuntimeError string
  | NotImplementedError
  | ExecuteError string TransitionID string
  | IndexError
  | KeyError string
  | ValueError
  | AttributeError string

subsection \<open>Python list and string primitives\<close>

text \<open>\<^verbatim>\<open>xs[-1]\<close> raises IndexError on the empty list.\<close>

definition py_last :: "'a list \<Rightarrow> error + 'a" where
  "py_last xs = (if xs = [] then Inl IndexError else Inr (last xs))"

text \<open>\<^verbatim>\<open>xs[0]\<close>.\<close>

definition py_first :: "'a list \<Rightarrow> error + 'a" where
  "py_first xs = (case xs of [] \<Rightarrow> Inl IndexError | x # _ \<Rightarrow> Inr x)"

text \<open>\<^verbatim>\<open>xs[i]\<close> for a Python int: a negative index counts from the end.\<close>

definition py_index :: "'a list \<Rightarrow> int \<Rightarrow> error + 'a" where
  "py_index xs i =
     (if 0 \<le> i \<and> i < int (length xs) then Inr (xs ! nat i)
      else if i < 0 \<and> - int (length xs) \<le> i then Inr (xs ! nat (int (length xs) + i))
      else Inl IndexError)"

text \<open>\<^verbatim>\<open>s.split(sep)\<close> for a one-character separator.\<close>

fun split_on :: "char \<Rightarrow> string \<Rightarrow> string list" where
  "split_on sep [] = [[]]"
| "split_on sep (c # cs) =
     (if c = sep then [] # split_on sep cs
      else (case split_on sep cs of
              [] \<Rightarrow> [[c]]
            | w # ws \<Rightarrow> (c # w) # ws))"

text \<open>\<^verbatim>\<open>p, f = name.split("/")\<close>: unpacking anything but two parts raises ValueError.\<close>

definition split_name :: "string \<Rightarrow> error + (string \<times> string)" where
  "split_name s =
     (case split_on (CHR ''/'') s of
        [p, f] \<Rightarrow> Inr (p, f)
      | _ \<Rightarrow> Inl ValueError)"

text \<open>\<^verbatim>\<open>str(n)\<close> of a non-negative int, as an f-string renders it.\<close>

definition digit_char :: "nat \<Rightarrow> char" where
  "digit_char d = ''0123456789'' ! d"

fun str_nat :: "nat \<Rightarrow> string" where
  "str_nat n = (if n < 10 then [digit_char n] else str_nat (n div 10) @ [digit_char (n mod 10)])"

declare str_nat.simps [simp del]

subsection \<open>Programs, as far as the tracer reads them\<close>

datatype Register = LocatorRegister nat | AccessRegister nat

fun locator :: "Register \<Rightarrow> nat" where
  "locator (LocatorRegister l) = l"
| "locator (AccessRegister l) = l"

datatype Operand = RegisterOperand Register | OtherOperand

text \<open>\<open>LocatorCallOperator id resource\<close> carries the locator's program id and resource.\<close>

datatype CallOperator = LocatorCallOperator string Identifier | IdentifierCallOperator Identifier

text \<open>The payload \<^verbatim>\<open>inst.literals\<close> of an instruction.\<close>

datatype Instruction =
    CallInstruction CallOperator "Register list"
  | AsyncInstruction "Operand list"
  | OtherInstruction

datatype Command = AwaitCommand Register | OtherCommand

text \<open>\<open>fn_finalize\<close> is \<^verbatim>\<open>function.finalize.value\<close>: None, or the finalize's commands.\<close>

record Function =
  fn_name :: Identifier
  fn_instructions :: "Instruction list"
  fn_finalize :: "Command list option"

text \<open>
  \<open>p_mappings\<close> is the dict \<^verbatim>\<open>program.mappings\<close> in insertion (declaration) order, each
  mapping name with its key and value type.
\<close>

record Program =
  p_id :: string
  p_functions :: "Identifier \<rightharpoonup> Function"
  p_mappings :: "(Identifier \<times> (string \<times> string)) list"

subsection \<open>The call graph and the tracer\<close>

datatype CallGraphNode = CallGraphNode (cg_index: int) (cg_name: string) (cg_calls: "CallGraphNode list")

text \<open>
  A LocalCallGraphNode is a call graph node that carries its
  \<^verbatim>\<open>"transition_id"\<close>: the pair of that id and the node.
\<close>

type_synonym LocalCallGraphNode = "TransitionID \<times> CallGraphNode"

text \<open>
  \<^verbatim>\<open>for c in node["calls"]: c["transition_id"] = transition_ids[c["index"]]\<close>
\<close>

fun annotate_calls :: "TransitionID list \<Rightarrow> CallGraphNode list \<Rightarrow> error + LocalCallGraphNode list" where
  "annotate_calls transition_ids [] = Inr []"
| "annotate_calls transition_ids (c # cs) =
     (case py_index transition_ids (cg_index c) of
        Inl e \<Rightarrow> Inl e
      | Inr t \<Rightarrow>
          (case annotate_calls transition_ids cs of
             Inl e \<Rightarrow> Inl e
           | Inr ls \<Rightarrow> Inr ((t, c) # ls)))"

text \<open>
  The two register maps are Python dicts, here association lists: an assignment puts
  the binding in front, a lookup (\<open>map_of\<close>) takes the first binding of the key.

  The loop over the operands of an async instruction (lines 108-111).
\<close>

fun trace_operands ::
  "(nat \<times> LocalCallGraphNode) list \<Rightarrow> Operand list \<Rightarrow> nat \<Rightarrow>
   (nat \<times> LocalCallGraphNode) list \<Rightarrow> (nat \<times> LocalCallGraphNode) list" where
  "trace_operands future_register_map [] param_index finalize_register_map = finalize_register_map"
| "trace_operands future_register_map (operand # rest) param_index finalize_register_map =
     trace_operands future_register_map rest (param_index + 1)
       (case operand of
          RegisterOperand (LocatorRegister l) \<Rightarrow>
            (case map_of future_register_map l of
               Some c \<Rightarrow> (param_index, c) # finalize_register_map
             | None \<Rightarrow> finalize_register_map)
        | _ \<Rightarrow> finalize_register_map)"

text \<open>
  The loop over the function's instructions (lines 91-111). \<open>get_program\<close> is the program
  lookup of \<^verbatim>\<open>util.global_cache\<close>, \<open>calls\<close> the annotated \<^verbatim>\<open>node["calls"]\<close>.
\<close>

fun trace_instructions ::
  "(string \<Rightarrow> Program option) \<Rightarrow> LocalCallGraphNode list \<Rightarrow> Instruction list \<Rightarrow> nat \<Rightarrow>
   (nat \<times> LocalCallGraphNode) list \<Rightarrow> (nat \<times> LocalCallGraphNode) list \<Rightarrow>
   error + (nat \<times> LocalCallGraphNode) list" where
  "trace_instructions get_program calls [] call_index future_register_map finalize_register_map =
     Inr finalize_register_map"
| "trace_instructions get_program calls (inst # rest) call_index future_register_map finalize_register_map =
     (case inst of
        CallInstruction (LocatorCallOperator pid resource) destinations \<Rightarrow>
          (case get_program pid of
             None \<Rightarrow> Inl (RuntimeError ''program not found'')
           | Some called_program \<Rightarrow>
               (case p_functions called_program resource of
                  None \<Rightarrow> Inl (KeyError resource)
                | Some called_function \<Rightarrow>
                    if fn_finalize called_function = None then
                      trace_instructions get_program calls rest (call_index + 1)
                        future_register_map finalize_register_map
                    else
                      (case py_last destinations of
                         Inl e \<Rightarrow> Inl e
                       | Inr future_destination \<Rightarrow>
                           if call_index < length calls then
                             if p_id called_program @ ''/'' @ fn_name called_function
                                  \<noteq> cg_name (snd (calls ! call_index))
                             then Inl (RuntimeError ''call analysis failed'')
                             else
                               trace_instructions get_program calls rest (call_index + 1)
                                 ((locator future_destination, calls ! call_index) # future_register_map)
                                 finalize_register_map
                           else Inl IndexError)))
      | CallInstruction (IdentifierCallOperator _) _ \<Rightarrow>
          trace_instructions get_program calls rest call_index future_register_map finalize_register_map
      | AsyncInstruction operands \<Rightarrow>
          trace_instructions get_program calls rest call_index future_register_map
            (trace_operands future_register_map operands 0 finalize_register_map)
      | OtherInstruction \<Rightarrow>
          trace_instructions get_program calls rest call_index future_register_map finalize_register_map)"

text \<open>The nodes a register map holds are among the annotated calls.\<close>

lemma trace_operands_values:
  "set (map snd future_register_map) \<subseteq> S \<Longrightarrow> set (map snd finalize_register_map) \<subseteq> S \<Longrightarrow>
   set (map snd (trace_operands future_register_map operands i finalize_register_map)) \<subseteq> S"
proof (induction operands arbitrary: i finalize_register_map)
  case Nil
  then show ?case by simp
next
  case (Cons operand rest)
  have "map_of future_register_map l = Some c \<Longrightarrow> c \<in> S" for l c
    using Cons.prems(1) by (force dest: map_of_SomeD)
  with Cons show ?case
    by (auto split: Operand.splits Register.splits option.splits intro!: Cons.IH)
qed

lemma trace_instructions_values:
  "trace_instructions get_program calls insts ci future_register_map finalize_register_map = Inr m \<Longrightarrow>
   set (map snd future_register_map) \<subseteq> set calls \<Longrightarrow>
   set (map snd finalize_register_map) \<subseteq> set calls \<Longrightarrow>
   set (map snd m) \<subseteq> set calls"
proof (induction insts arbitrary: ci future_register_map finalize_register_map)
  case Nil
  then show ?case by simp
next
  case (Cons inst rest)
  show ?case
  proof (cases inst)
    case (CallInstruction operator destinations)
    show ?thesis
    proof (cases operator)
      case (LocatorCallOperator pid resource)
      from Cons.prems(1) CallInstruction LocatorCallOperator
      obtain ci' frm' where
        step: "trace_instructions get_program calls rest ci' frm' finalize_register_map = Inr m"
        and frm': "frm' = future_register_map \<or>
          (\<exists>l. ci < length calls \<and> frm' = (l, calls ! ci) # future_register_map)"
        by (auto split: option.splits if_splits sum.splits)
      from frm' Cons.prems(2) have sub: "set (map snd frm') \<subseteq> set calls"
        by (elim disjE exE conjE) (simp_all add: subset_iff)
      show ?thesis
        by (rule Cons.IH [OF step sub Cons.prems(3)])
    next
      case (IdentifierCallOperator x)
      with CallInstruction Cons.prems(1)
      have "trace_instructions get_program calls rest ci future_register_map finalize_register_map = Inr m"
        by simp
      then show ?thesis
        using Cons.prems(2,3) by (rule Cons.IH)
    qed
  next
    case (AsyncInstruction operands)
    with Cons.prems(1)
    have step: "trace_instructions get_program calls rest ci future_register_map
            (trace_operands future_register_map operands 0 finalize_register_map) = Inr m"
      by simp
    have sub: "set (map snd (trace_operands future_register_map operands 0 finalize_register_map))
        \<subseteq> set calls"
      using Cons.prems(2,3) by (rule trace_operands_values)
    show ?thesis
      by (rule Cons.IH [OF step Cons.prems(2) sub])
  next
    case OtherInstruction
    with Cons.prems(1)
    have "trace_instructions get_program calls rest ci future_register_map finalize_register_map = Inr m"
      by simp
    then show ?thesis
      using Cons.prems(2,3) by (rule Cons.IH)
  qed
qed

lemma annotate_calls_nodes:
  "annotate_calls transition_ids cs = Inr ls \<Longrightarrow> map snd ls = cs"
  by (induction cs arbitrary: ls) (auto split: sum.splits)

text \<open>
  A bound on the size of the nodes a register map holds: the tracer recurses into a node
  of the map, which is a child of the node it is tracing.
\<close>

fun register_map_bound :: "(nat \<times> LocalCallGraphNode) list \<Rightarrow> nat" where
  "register_map_bound [] = 0"
| "register_map_bound ((l, c) # m) = max (size (snd c)) (register_map_bound m)"

lemma register_map_bound_lookup:
  "map_of m l = Some c \<Longrightarrow> size (snd c) \<le> register_map_bound m"
  by (induction m rule: register_map_bound.induct) (auto split: if_splits)

lemma register_map_bound_children:
  "set (map snd m) \<subseteq> set calls \<Longrightarrow> map snd calls = cg_calls node \<Longrightarrow>
   register_map_bound m < size node"
proof (induction m rule: register_map_bound.induct)
  case 1
  then show ?case by (cases node) simp
next
  case (2 l c m)
  from "2.prems"(1) have "c \<in> set calls"
    by simp
  then have "snd c \<in> set (map snd calls)"
    by simp
  with "2.prems"(2) have "snd c \<in> set (cg_calls node)"
    by simp
  then have "size (snd c) < size node"
    by (cases node) (auto simp: less_Suc_eq_le intro: size_list_estimation')
  with 2 show ?case by simp
qed

lemma trace_instructions_bound:
  assumes "annotate_calls transition_ids (cg_calls node) = Inr calls"
    and "trace_instructions get_program calls insts 0 [] [] = Inr m"
  shows "register_map_bound m < size node"
proof -
  from assms(2) have "set (map snd m) \<subseteq> set calls"
    by (rule trace_instructions_values) simp_all
  moreover from assms(1) have "map snd calls = cg_calls node"
    by (rule annotate_calls_nodes)
  ultimately show ?thesis
    by (rule register_map_bound_children)
qed

text \<open>
  \<open>trace_execution\<close> is \<^verbatim>\<open>_trace_execution\<close>; \<open>trace_commands\<close> is its loop over the
  finalize commands (lines 113-126). The list \<open>async_order\<close> is appended to in place by
  the source and is threaded through here.
\<close>

function trace_execution ::
  "(string \<Rightarrow> Program option) \<Rightarrow> TransitionID list \<Rightarrow> Program \<Rightarrow> Identifier \<Rightarrow>
   CallGraphNode \<Rightarrow> TransitionID list \<Rightarrow> error + TransitionID list"
and trace_commands ::
  "(string \<Rightarrow> Program option) \<Rightarrow> TransitionID list \<Rightarrow> (nat \<times> LocalCallGraphNode) list \<Rightarrow>
   Command list \<Rightarrow> TransitionID list \<Rightarrow> error + TransitionID list" where
  "trace_execution get_program transition_ids program function_name node async_order =
     (case annotate_calls transition_ids (cg_calls node) of
        Inl e \<Rightarrow> Inl e
      | Inr calls \<Rightarrow>
          (case p_functions program function_name of
             None \<Rightarrow> Inl (KeyError function_name)
           | Some function \<Rightarrow>
               (case fn_finalize function of
                  None \<Rightarrow> Inr async_order
                | Some commands \<Rightarrow>
                    (case trace_instructions get_program calls (fn_instructions function) 0 [] [] of
                       Inl e \<Rightarrow> Inl e
                     | Inr finalize_register_map \<Rightarrow>
                         trace_commands get_program transition_ids finalize_register_map
                           commands async_order))))"
| "trace_commands get_program transition_ids finalize_register_map [] async_order = Inr async_order"
| "trace_commands get_program transition_ids finalize_register_map (cmd # rest) async_order =
     (case cmd of
        AwaitCommand register \<Rightarrow>
          (case map_of finalize_register_map (locator register) of
             None \<Rightarrow> Inl (RuntimeError ''invalid await command'')
           | Some called_node \<Rightarrow>
               (case split_name (cg_name (snd called_node)) of
                  Inl e \<Rightarrow> Inl e
                | Inr (p, f) \<Rightarrow>
                    (case get_program p of
                       None \<Rightarrow> Inl (RuntimeError ''program not found'')
                     | Some called_program \<Rightarrow>
                         if p_functions called_program f = None
                         then Inl (RuntimeError ''function not found'')
                         else
                           (case trace_execution get_program transition_ids called_program f
                                   (snd called_node) (async_order @ [fst called_node]) of
                              Inl e \<Rightarrow> Inl e
                            | Inr async_order' \<Rightarrow>
                                trace_commands get_program transition_ids finalize_register_map
                                  rest async_order'))))
      | OtherCommand \<Rightarrow>
          trace_commands get_program transition_ids finalize_register_map rest async_order)"
  by pat_completeness auto

termination
  by (relation
    "(\<lambda>x. case x of
            Inl (_, _, _, _, node, _) \<Rightarrow> 2 * size node
          | Inr (_, _, m, _, _) \<Rightarrow> 2 * register_map_bound m + 1)
     <*mlex*>
     measure (\<lambda>x. case x of Inl _ \<Rightarrow> 0 | Inr (_, _, _, cmds, _) \<Rightarrow> length cmds)")
    (auto simp: wf_mlex mlex_iff dest!: trace_instructions_bound register_map_bound_lookup)

declare trace_execution.simps [simp del]

text \<open>
  \<open>call_graph\<close> is the method \<^verbatim>\<open>program.call_graph\<close> of \<^verbatim>\<open>aleo_types\<close>, a parameter
  here.
\<close>

definition build_async_order ::
  "(string \<Rightarrow> Program option) \<Rightarrow> (Program \<Rightarrow> Identifier \<Rightarrow> error + CallGraphNode list) \<Rightarrow>
   TransitionID list \<Rightarrow> Program \<Rightarrow> Identifier \<Rightarrow> error + TransitionID list" where
  "build_async_order get_program call_graph transition_ids program function_name =
     (case call_graph program function_name of
        Inl e \<Rightarrow> Inl e
      | Inr cg \<Rightarrow>
          (let root_call_graph = CallGraphNode (int (length transition_ids) - 1) [] cg in
           case py_last transition_ids of
             Inl e \<Rightarrow> Inl e
           | Inr t \<Rightarrow>
               trace_execution get_program transition_ids program function_name
                 root_call_graph [t]))"

subsection \<open>Transactions and finalize operations\<close>

datatype Future = Future (f_program_id: string) (f_function_name: Identifier) (f_arguments: "Argument list")
  and Argument = PlaintextArgument Plaintext | FutureArgument Future

datatype Value = PlaintextValue Plaintext | FutureValue Future

text \<open>\<open>FutureTransitionOutput\<close> carries \<^verbatim>\<open>output.future.value\<close>, an optional future.\<close>

datatype TransitionOutput = FutureTransitionOutput "Future option" | OtherTransitionOutput

record Transition =
  t_id :: TransitionID
  t_program_id :: string
  t_function_name :: string
  t_outputs :: "TransitionOutput list"

record Fee =
  transition_of_fee :: Transition

record Execution =
  transitions :: "Transition list"

record Deployment =
  deployment_program :: Program

text \<open>The fee of an execute transaction is an \<^verbatim>\<open>Option[Fee]\<close>.\<close>

datatype Transaction =
    DeployTransaction Deployment Fee
  | ExecuteTransaction Execution "Fee option"
  | FeeTransaction Fee

datatype Rejected = RejectedDeployment | RejectedExecution Execution

text \<open>
  The kinds \<^verbatim>\<open>FinalizeOperation.Type\<close> that the source names, and the expected
  operations of a block: \<open>InitializeMapping mapping_id\<close>,
  \<open>UpdateKeyValue mapping_id key_id value_id\<close>, \<open>RemoveKeyValue mapping_id key_id\<close>, ...
\<close>

datatype FinalizeOperationType =
    Type_InitializeMapping
  | Type_InsertKeyValue
  | Type_UpdateKeyValue
  | Type_RemoveKeyValue
  | Type_RemoveMapping

datatype FinalizeOperation =
    InitializeMapping Field
  | InsertKeyValue Field Field Field
  | UpdateKeyValue Field Field Field
  | RemoveKeyValue Field Field
  | RemoveMapping Field

fun fo_type :: "FinalizeOperation \<Rightarrow> FinalizeOperationType" where
  "fo_type (InitializeMapping _) = Type_InitializeMapping"
| "fo_type (InsertKeyValue _ _ _) = Type_InsertKeyValue"
| "fo_type (UpdateKeyValue _ _ _) = Type_UpdateKeyValue"
| "fo_type (RemoveKeyValue _ _) = Type_RemoveKeyValue"
| "fo_type (RemoveMapping _) = Type_RemoveMapping"

fun fo_mapping_id :: "FinalizeOperation \<Rightarrow> Field" where
  "fo_mapping_id (InitializeMapping m) = m"
| "fo_mapping_id (InsertKeyValue m _ _) = m"
| "fo_mapping_id (UpdateKeyValue m _ _) = m"
| "fo_mapping_id (RemoveKeyValue m _) = m"
| "fo_mapping_id (RemoveMapping m) = m"

text \<open>
  The four classes of confirmed transaction: the transaction, for a rejected one what was
  rejected, and the expected finalize operations \<^verbatim>\<open>confirmed_transaction.finalize\<close>.
\<close>

datatype ConfirmedTransaction =
    AcceptedDeploy Transaction "FinalizeOperation list"
  | AcceptedExecute Transaction "FinalizeOperation list"
  | RejectedDeploy Transaction Rejected "FinalizeOperation list"
  | RejectedExecute Transaction Rejected "FinalizeOperation list"

fun ct_transaction :: "ConfirmedTransaction \<Rightarrow> Transaction" where
  "ct_transaction (AcceptedDeploy t _) = t"
| "ct_transaction (AcceptedExecute t _) = t"
| "ct_transaction (RejectedDeploy t _ _) = t"
| "ct_transaction (RejectedExecute t _ _) = t"

fun ct_finalize :: "ConfirmedTransaction \<Rightarrow> FinalizeOperation list" where
  "ct_finalize (AcceptedDeploy _ f) = f"
| "ct_finalize (AcceptedExecute _ f) = f"
| "ct_finalize (RejectedDeploy _ _ f) = f"
| "ct_finalize (RejectedExecute _ _ f) = f"

record Block =
  block_height :: nat
  block_transactions :: "ConfirmedTransaction list"

datatype FinalizeState = FinalizeState Block

text \<open>
  An actual operation is a Python dict. \<^verbatim>\<open>"type"\<close> and \<^verbatim>\<open>"mapping_id"\<close> are in every
  operation dict; each other key is present (\<open>Some\<close>) or absent, and reading an absent
  key raises KeyError.
\<close>

record operation =
  op_type :: FinalizeOperationType
  op_mapping_id :: Field
  op_program_id :: "string option"
  op_mapping :: "Identifier option"
  op_index :: "nat option"
  op_key_id :: "Field option"
  op_value_id :: "Field option"
  op_key :: "Plaintext option"
  op_value :: "Plaintext option"
  op_program_name :: "string option"
  op_mapping_name :: "string option"
  op_from_transaction :: "bool option"
  op_height :: "nat option"

definition op_dict :: "FinalizeOperationType \<Rightarrow> Field \<Rightarrow> operation" where
  "op_dict t m =
     \<lparr>op_type = t, op_mapping_id = m, op_program_id = None, op_mapping = None, op_index = None,
      op_key_id = None, op_value_id = None, op_key = None, op_value = None,
      op_program_name = None, op_mapping_name = None, op_from_transaction = None,
      op_height = None\<rparr>"

definition py_get :: "string \<Rightarrow> 'a option \<Rightarrow> error + 'a" where
  "py_get k v = (case v of None \<Rightarrow> Inl (KeyError k) | Some x \<Rightarrow> Inr x)"

fun bind_err :: "error + 'a \<Rightarrow> ('a \<Rightarrow> error + 'b) \<Rightarrow> error + 'b" where
  "bind_err (Inl e) f = Inl e"
| "bind_err (Inr x) f = f x"

subsection \<open>Caches, storage and the external collaborators\<close>

text \<open>
  The finalizer mutates the cache dicts it is given, and an accepted execute passes the
  same dict twice. A store holds the two dicts a transaction can reach: the process-wide
  \<^verbatim>\<open>global_mapping_cache\<close> and the dict made by a \<^verbatim>\<open>{}\<close> of the transaction.
\<close>

datatype cache_ref = GlobalCache | LocalCache

type_synonym MappingCacheDict = "Field \<rightharpoonup> (Plaintext \<times> Value)"
type_synonym cache = "Field \<rightharpoonup> MappingCacheDict"
type_synonym store = "cache_ref \<Rightarrow> cache"

text \<open>
  The storage is the sequence of the mutations issued on the cursor; \<^verbatim>\<open>str\<close> and
  \<^verbatim>\<open>dump\<close> of an argument are left as the argument.
\<close>

datatype db_call =
    initialize_mapping Field string Identifier
  | update_mapping_key_value string string Field Field Field Plaintext Plaintext nat bool
  | remove_mapping_key_value string string Field Field Plaintext nat bool

type_synonym db = "db_call list"

text \<open>
  What this file imports and \<^verbatim>\<open>src/\<close> does not hold: \<^verbatim>\<open>get_program\<close> of
  \<^verbatim>\<open>util.global_cache\<close>, \<^verbatim>\<open>Program.call_graph\<close> and \<^verbatim>\<open>cached_get_mapping_id\<close> of
  \<^verbatim>\<open>aleo_types\<close>, and \<^verbatim>\<open>execute_finalizer\<close> of \<^verbatim>\<open>interpreter.finalizer\<close>. The
  finalizer reads the storage and the store, and returns the operations or raises, with
  the store as it left it. Its arguments after the storage and the store are those of
  the source after \<^verbatim>\<open>cur\<close>: finalize state, transition ids, rejected set, program,
  function name, inputs, mapping cache, local mapping cache, allow\_state\_change.
\<close>

record env =
  get_program :: "string \<Rightarrow> Program option"
  call_graph :: "Program \<Rightarrow> Identifier \<Rightarrow> error + CallGraphNode list"
  cached_get_mapping_id :: "string \<Rightarrow> string \<Rightarrow> Field"
  execute_finalizer ::
    "db \<Rightarrow> store \<Rightarrow> FinalizeState \<Rightarrow> TransitionID list \<Rightarrow> TransitionID set \<Rightarrow> Program \<Rightarrow>
     Identifier \<Rightarrow> Value list \<Rightarrow> cache_ref \<Rightarrow> cache_ref \<Rightarrow> bool \<Rightarrow>
     (error + operation list) \<times> store"

subsection \<open>Fee finalization and deployments\<close>

text \<open>
  \<^verbatim>\<open>load_input_from_arguments\<close>: an argument is a plaintext or a future argument, so the
  final \<^verbatim>\<open>else: raise NotImplementedError\<close> has no input here.
\<close>

fun load_input_from_arguments :: "Argument list \<Rightarrow> Value list" where
  "load_input_from_arguments [] = []"
| "load_input_from_arguments (PlaintextArgument plaintext # arguments) =
     PlaintextValue plaintext # load_input_from_arguments arguments"
| "load_input_from_arguments (FutureArgument future # arguments) =
     FutureValue future # load_input_from_arguments arguments"

text \<open>\<^verbatim>\<open>_execute_public_fee\<close> (lines 18-36).\<close>

definition execute_public_fee ::
  "env \<Rightarrow> db \<Rightarrow> store \<Rightarrow> FinalizeState \<Rightarrow> Transition \<Rightarrow> cache_ref \<Rightarrow> cache_ref \<Rightarrow> bool \<Rightarrow>
   (error + operation list) \<times> store" where
  "execute_public_fee env db st finalize_state fee_transition mapping_cache local_mapping_cache
     allow_state_change =
     (if t_program_id fee_transition \<noteq> ''credits.aleo''
         \<or> t_function_name fee_transition \<noteq> ''fee_public''
      then (Inl (TypeError ''not a fee transition''), st)
      else
        (case py_first (t_outputs fee_transition) of
           Inl e \<Rightarrow> (Inl e, st)
         | Inr output \<Rightarrow>
             (case output of
                OtherTransitionOutput \<Rightarrow> (Inl (TypeError ''invalid fee transition output''), st)
              | FutureTransitionOutput None \<Rightarrow>
                  (Inl (RuntimeError ''invalid fee transition output''), st)
              | FutureTransitionOutput (Some future) \<Rightarrow>
                  (case get_program env (f_program_id future) of
                     None \<Rightarrow> (Inl (RuntimeError ''program not found''), st)
                   | Some program \<Rightarrow>
                       (let inputs = load_input_from_arguments (f_arguments future) in
                        execute_finalizer env db st finalize_state [t_id fee_transition] {}
                          program (f_function_name future) inputs mapping_cache
                          local_mapping_cache allow_state_change)))))"

text \<open>
  The fee of a deploy or fee transaction (line 42-45); an execute transaction makes
  \<^verbatim>\<open>finalize_deploy\<close> raise NotImplementedError.
\<close>

fun deploy_fee :: "Transaction \<Rightarrow> Fee option" where
  "deploy_fee (DeployTransaction _ fee) = Some fee"
| "deploy_fee (FeeTransaction fee) = Some fee"
| "deploy_fee (ExecuteTransaction _ _) = None"

text \<open>The dict of lines 57-62.\<close>

definition initialize_mapping_operation :: "env \<Rightarrow> Program \<Rightarrow> Identifier \<Rightarrow> operation" where
  "initialize_mapping_operation env program mapping =
     (op_dict Type_InitializeMapping (cached_get_mapping_id env (p_id program) mapping))
       \<lparr>op_program_id := Some (p_id program), op_mapping := Some mapping\<rparr>"

text \<open>
  \<^verbatim>\<open>finalize_deploy\<close> (lines 38-67). The local mapping cache of the fee is a new
  \<^verbatim>\<open>{}\<close>. An accepted deploy whose transaction is a fee transaction has no
  \<^verbatim>\<open>deployment\<close> attribute.
\<close>

definition finalize_deploy ::
  "env \<Rightarrow> db \<Rightarrow> store \<Rightarrow> FinalizeState \<Rightarrow> ConfirmedTransaction \<Rightarrow> cache_ref \<Rightarrow>
   (error + (FinalizeOperation list \<times> operation list \<times> string option)) \<times> store" where
  "finalize_deploy env db st finalize_state confirmed_transaction mapping_cache =
     (case deploy_fee (ct_transaction confirmed_transaction) of
        None \<Rightarrow> (Inl NotImplementedError, st)
      | Some fee \<Rightarrow>
          (let transition = transition_of_fee fee in
           case (if t_function_name transition = ''fee_public''
                 then execute_public_fee env db (st(LocalCache := Map.empty)) finalize_state
                        transition mapping_cache LocalCache True
                 else (Inr [], st)) of
             (Inl e, st') \<Rightarrow> (Inl e, st')
           | (Inr operations, st') \<Rightarrow>
               (case confirmed_transaction of
                  AcceptedDeploy transaction expected_operations \<Rightarrow>
                    (case transaction of
                       DeployTransaction deployment _ \<Rightarrow>
                         (let program = deployment_program deployment in
                          (Inr (expected_operations,
                                operations @ map (initialize_mapping_operation env program)
                                               (map fst (p_mappings program)),
                                None), st'))
                     | _ \<Rightarrow> (Inl (AttributeError ''deployment''), st'))
                | _ \<Rightarrow>
                    (Inr (ct_finalize confirmed_transaction, operations,
                          Some ''(detailed reason not available)''), st'))))"

subsection \<open>Executions\<close>

text \<open>\<^verbatim>\<open>xs.index(x)\<close>: the first position whose element equals \<open>x\<close>.\<close>

fun py_list_index :: "'a list \<Rightarrow> 'a \<Rightarrow> error + nat" where
  "py_list_index [] x = Inl ValueError"
| "py_list_index (y # ys) x =
     (if y = x then Inr 0
      else (case py_list_index ys x of Inl e \<Rightarrow> Inl e | Inr i \<Rightarrow> Inr (Suc i)))"

text \<open>The two f-strings of lines 198 and 208; the character 0x22 is the double quote.\<close>

definition transition_reject_reason :: "string \<Rightarrow> nat \<Rightarrow> string \<Rightarrow> string" where
  "transition_reject_reason message index instruction =
     ''execute error: '' @ message @ '', at transition #'' @ str_nat index
       @ '', instruction '' @ [CHR 0x22] @ instruction @ [CHR 0x22]"

definition fee_reject_reason :: "string \<Rightarrow> string \<Rightarrow> string" where
  "fee_reject_reason message instruction =
     ''execute error: '' @ message @ '', at fee transition, instruction ''
       @ [CHR 0x22] @ instruction @ [CHR 0x22]"

text \<open>
  Lines 168-199 of \<^verbatim>\<open>finalize_execute\<close>: the traced execution of the last transition's
  future. The result is the pair of \<^verbatim>\<open>operations\<close> and \<^verbatim>\<open>reject_reason\<close>.
\<close>

definition finalize_execute_future ::
  "env \<Rightarrow> db \<Rightarrow> store \<Rightarrow> FinalizeState \<Rightarrow> Execution \<Rightarrow> cache_ref \<Rightarrow> cache_ref \<Rightarrow> bool \<Rightarrow>
   (error + (operation list \<times> string option)) \<times> store" where
  "finalize_execute_future env db st finalize_state execution mapping_cache local_mapping_cache
     allow_state_change =
     (case py_last (transitions execution) of
        Inl e \<Rightarrow> (Inl e, st)
      | Inr transition \<Rightarrow>
          if length (t_outputs transition) \<noteq> 0 then
            (case last (t_outputs transition) of
               OtherTransitionOutput \<Rightarrow> (Inr ([], None), st)
             | FutureTransitionOutput None \<Rightarrow> (Inl (RuntimeError ''invalid future is None''), st)
             | FutureTransitionOutput (Some future) \<Rightarrow>
                 (case get_program env (f_program_id future) of
                    None \<Rightarrow> (Inl (RuntimeError ''program not found''), st)
                  | Some program \<Rightarrow>
                      (let transition_ids = map t_id (transitions execution) in
                       case build_async_order (get_program env) (call_graph env) transition_ids
                              program (f_function_name future) of
                         Inl e \<Rightarrow> (Inl e, st)
                       | Inr async_order \<Rightarrow>
                           (let inputs = load_input_from_arguments (f_arguments future) in
                            case execute_finalizer env db st finalize_state async_order {} program
                                   (f_function_name future) inputs mapping_cache
                                   local_mapping_cache allow_state_change of
                              (Inr operations, st') \<Rightarrow> (Inr (operations, None), st')
                            | (Inl e, st') \<Rightarrow>
                                (case e of
                                   ExecuteError message transition_id instruction \<Rightarrow>
                                     (case find (\<lambda>ts. t_id ts = transition_id)
                                             (transitions execution) of
                                        None \<Rightarrow>
                                          (Inl (RuntimeError
                                             ''rejected transition not found in transaction''), st')
                                      | Some ts \<Rightarrow>
                                          (case py_list_index (transitions execution) ts of
                                             Inl e' \<Rightarrow> (Inl e', st')
                                           | Inr index \<Rightarrow>
                                               (Inr ([], Some (transition_reject_reason message
                                                                index instruction)), st')))
                                 | _ \<Rightarrow> (Inl e, st'))))))
          else (Inr ([], None), st))"

text \<open>
  Lines 200-217: a rejected execute whose execution did not fail tries the fee without
  state change; whatever happens the operations are emptied.
\<close>

definition finalize_execute_rejected_fee ::
  "env \<Rightarrow> db \<Rightarrow> store \<Rightarrow> FinalizeState \<Rightarrow> Fee \<Rightarrow> cache_ref \<Rightarrow> cache_ref \<Rightarrow> bool \<Rightarrow>
   (error + (operation list \<times> string option)) \<times> store" where
  "finalize_execute_rejected_fee env db st finalize_state fee mapping_cache local_mapping_cache
     allow_state_change =
     (let transition = transition_of_fee fee in
      if t_function_name transition = ''fee_public'' then
        (case execute_public_fee env db st finalize_state transition mapping_cache
                local_mapping_cache allow_state_change of
           (Inr fee_operations, st') \<Rightarrow> (Inr ([], Some ''unknown reason''), st')
         | (Inl e, st') \<Rightarrow>
             (case e of
                ExecuteError message transition_id instruction \<Rightarrow>
                  (Inr ([], Some (fee_reject_reason message instruction)), st')
              | _ \<Rightarrow> (Inl e, st')))
      else (Inr ([], Some ''unknown reason''), st))"

text \<open>Lines 219-223: the fee, if there is one and it is public, with state change.\<close>

definition finalize_execute_fee ::
  "env \<Rightarrow> db \<Rightarrow> store \<Rightarrow> FinalizeState \<Rightarrow> Fee option \<Rightarrow> cache_ref \<Rightarrow> cache_ref \<Rightarrow>
   (error + operation list) \<times> store" where
  "finalize_execute_fee env db st finalize_state fee mapping_cache local_mapping_cache =
     (case fee of
        None \<Rightarrow> (Inr [], st)
      | Some fee' \<Rightarrow>
          (let transition = transition_of_fee fee' in
           if t_function_name transition = ''fee_public''
           then execute_public_fee env db st finalize_state transition mapping_cache
                  local_mapping_cache True
           else (Inr [], st)))"

text \<open>
  Lines 168-224, for the execution, the caches, the flag and the fee that lines 149-167
  chose; \<open>rejected\<close> is \<^verbatim>\<open>isinstance(confirmed_transaction, RejectedExecute)\<close>.
\<close>

definition finalize_execute_body ::
  "env \<Rightarrow> db \<Rightarrow> store \<Rightarrow> FinalizeState \<Rightarrow> bool \<Rightarrow> FinalizeOperation list \<Rightarrow> Execution \<Rightarrow>
   bool \<Rightarrow> cache_ref \<Rightarrow> cache_ref \<Rightarrow> Fee option \<Rightarrow>
   (error + (FinalizeOperation list \<times> operation list \<times> string option)) \<times> store" where
  "finalize_execute_body env db st finalize_state rejected expected_operations execution
     allow_state_change mapping_cache local_mapping_cache fee =
     (case finalize_execute_future env db st finalize_state execution mapping_cache
             local_mapping_cache allow_state_change of
        (Inl e, st1) \<Rightarrow> (Inl e, st1)
      | (Inr (operations, reject_reason), st1) \<Rightarrow>
          (case (if rejected \<and> reject_reason = None
                 then (case fee of
                         None \<Rightarrow> (Inl (AttributeError ''transition''), st1)
                       | Some fee' \<Rightarrow>
                           finalize_execute_rejected_fee env db st1 finalize_state fee'
                             mapping_cache local_mapping_cache allow_state_change)
                 else (Inr (operations, reject_reason), st1)) of
             (Inl e, st2) \<Rightarrow> (Inl e, st2)
           | (Inr (operations', reject_reason'), st2) \<Rightarrow>
               (case finalize_execute_fee env db st2 finalize_state fee mapping_cache
                       local_mapping_cache of
                  (Inl e, st3) \<Rightarrow> (Inl e, st3)
                | (Inr fee_operations, st3) \<Rightarrow>
                    (Inr (expected_operations, operations' @ fee_operations, reject_reason'),
                     st3))))"

text \<open>
  \<^verbatim>\<open>finalize_execute\<close> (lines 145-224). An accepted execute uses the mapping cache as
  its local cache; a rejected one a new \<^verbatim>\<open>{}\<close>, and no state change.
\<close>

definition finalize_execute ::
  "env \<Rightarrow> db \<Rightarrow> store \<Rightarrow> FinalizeState \<Rightarrow> ConfirmedTransaction \<Rightarrow> cache_ref \<Rightarrow>
   (error + (FinalizeOperation list \<times> operation list \<times> string option)) \<times> store" where
  "finalize_execute env db st finalize_state confirmed_transaction mapping_cache =
     (case confirmed_transaction of
        AcceptedExecute transaction expected_operations \<Rightarrow>
          (case transaction of
             ExecuteTransaction execution fee \<Rightarrow>
               finalize_execute_body env db st finalize_state False expected_operations execution
                 True mapping_cache mapping_cache fee
           | _ \<Rightarrow> (Inl (TypeError ''invalid execute transaction''), st))
      | RejectedExecute transaction rejected expected_operations \<Rightarrow>
          (case rejected of
             RejectedExecution execution \<Rightarrow>
               (case transaction of
                  FeeTransaction fee \<Rightarrow>
                    finalize_execute_body env db (st(LocalCache := Map.empty)) finalize_state True
                      expected_operations execution False mapping_cache LocalCache (Some fee)
                | _ \<Rightarrow>
                    (Inl (TypeError ''invalid rejected execute transaction''),
                     st(LocalCache := Map.empty)))
           | RejectedDeployment \<Rightarrow>
               (Inl (TypeError ''invalid rejected execute transaction''), st))
      | _ \<Rightarrow> (Inl NotImplementedError, st))"

subsection \<open>The block finalizer\<close>

text \<open>
  The body of the \<^verbatim>\<open>try\<close> of lines 247-261, for one expected operation \<open>e\<close> and one
  actual operation \<open>a\<close>. The \<^verbatim>\<open>or\<close> of line 255 reads \<^verbatim>\<open>"value_id"\<close> only when the
  key ids are equal.
\<close>

definition check_operation :: "FinalizeOperation \<Rightarrow> operation \<Rightarrow> error + unit" where
  "check_operation e a =
     (if fo_type e \<noteq> op_type a then Inl (TypeError ''invalid finalize operation type'')
      else if fo_mapping_id e \<noteq> op_mapping_id a then Inl (TypeError ''invalid finalize mapping id'')
      else
        (case e of
           InitializeMapping _ \<Rightarrow> Inr ()
         | UpdateKeyValue _ key_id value_id \<Rightarrow>
             (case op_key_id a of
                None \<Rightarrow> Inl (KeyError ''key_id'')
              | Some k \<Rightarrow>
                  if key_id \<noteq> k then Inl (TypeError ''invalid finalize update key operation'')
                  else
                    (case op_value_id a of
                       None \<Rightarrow> Inl (KeyError ''value_id'')
                     | Some v \<Rightarrow>
                         if value_id \<noteq> v
                         then Inl (TypeError ''invalid finalize update key operation'')
                         else Inr ()))
         | RemoveKeyValue _ key_id \<Rightarrow>
             (case op_key_id a of
                None \<Rightarrow> Inl (KeyError ''key_id'')
              | Some k \<Rightarrow>
                  if key_id \<noteq> k then Inl (TypeError ''invalid finalize remove key operation'')
                  else Inr ())
         | _ \<Rightarrow> Inl NotImplementedError))"

text \<open>
  The loop of lines 246-267 over \<^verbatim>\<open>zip(expected_operations, operations)\<close>: a TypeError
  clears the process-wide cache and is raised again, any other exception passes the
  \<^verbatim>\<open>except TypeError\<close>.
\<close>

fun check_operations :: "(FinalizeOperation \<times> operation) list \<Rightarrow> store \<Rightarrow> (error + unit) \<times> store" where
  "check_operations [] st = (Inr (), st)"
| "check_operations ((e, a) # rest) st =
     (case check_operation e a of
        Inr _ \<Rightarrow> check_operations rest st
      | Inl err \<Rightarrow>
          (case err of
             TypeError _ \<Rightarrow> (Inl err, st(GlobalCache := Map.empty))
           | _ \<Rightarrow> (Inl err, st)))"

text \<open>
  Lines 240-267: the length check, then the pairwise loop.
\<close>

definition validate_operations ::
  "FinalizeOperation list \<Rightarrow> operation list \<Rightarrow> store \<Rightarrow> (error + unit) \<times> store" where
  "validate_operations expected_operations operations st =
     (if length expected_operations \<noteq> length operations
      then (Inl (TypeError ''invalid finalize operation length''), st)
      else check_operations (zip expected_operations operations) st)"

text \<open>One case of the \<^verbatim>\<open>match\<close> of \<^verbatim>\<open>execute_operations\<close> (lines 276-302).\<close>

definition execute_operation :: "operation \<Rightarrow> error + db_call" where
  "execute_operation operation =
     (case op_type operation of
        Type_InitializeMapping \<Rightarrow>
          bind_err (py_get ''program_id'' (op_program_id operation)) (\<lambda>program_id.
          bind_err (py_get ''mapping'' (op_mapping operation)) (\<lambda>mapping.
          Inr (initialize_mapping (op_mapping_id operation) program_id mapping)))
      | Type_UpdateKeyValue \<Rightarrow>
          bind_err (py_get ''key_id'' (op_key_id operation)) (\<lambda>key_id.
          bind_err (py_get ''value_id'' (op_value_id operation)) (\<lambda>value_id.
          bind_err (py_get ''key'' (op_key operation)) (\<lambda>key.
          bind_err (py_get ''value'' (op_value operation)) (\<lambda>val.
          bind_err (py_get ''program_name'' (op_program_name operation)) (\<lambda>program_name.
          bind_err (py_get ''mapping_name'' (op_mapping_name operation)) (\<lambda>mapping_name.
          bind_err (py_get ''from_transaction'' (op_from_transaction operation)) (\<lambda>from_transaction.
          bind_err (py_get ''height'' (op_height operation)) (\<lambda>height.
          Inr (update_mapping_key_value program_name mapping_name (op_mapping_id operation)
                 key_id value_id key val height from_transaction)))))))))
      | Type_RemoveKeyValue \<Rightarrow>
          bind_err (py_get ''key_id'' (op_key_id operation)) (\<lambda>key_id.
          bind_err (py_get ''key'' (op_key operation)) (\<lambda>key.
          bind_err (py_get ''program_name'' (op_program_name operation)) (\<lambda>program_name.
          bind_err (py_get ''mapping_name'' (op_mapping_name operation)) (\<lambda>mapping_name.
          bind_err (py_get ''from_transaction'' (op_from_transaction operation)) (\<lambda>from_transaction.
          bind_err (py_get ''height'' (op_height operation)) (\<lambda>height.
          Inr (remove_mapping_key_value program_name mapping_name (op_mapping_id operation)
                 key_id key height from_transaction)))))))
      | _ \<Rightarrow> Inl NotImplementedError)"

text \<open>
  \<^verbatim>\<open>execute_operations\<close>, the Operation Applier: each operation becomes one storage
  mutation, in order; an exception leaves the mutations already issued.
\<close>

fun execute_operations :: "db \<Rightarrow> operation list \<Rightarrow> (error + unit) \<times> db" where
  "execute_operations db [] = (Inr (), db)"
| "execute_operations db (operation # operations) =
     (case execute_operation operation of
        Inl e \<Rightarrow> (Inl e, db)
      | Inr c \<Rightarrow> execute_operations (db @ [c]) operations)"

text \<open>
  Lines 233-238: the dispatch on the class of the confirmed transaction, with the
  process-wide cache as the mapping cache.
\<close>

definition finalize_transaction ::
  "env \<Rightarrow> db \<Rightarrow> store \<Rightarrow> FinalizeState \<Rightarrow> ConfirmedTransaction \<Rightarrow>
   (error + (FinalizeOperation list \<times> operation list \<times> string option)) \<times> store" where
  "finalize_transaction env db st finalize_state confirmed_transaction =
     (case confirmed_transaction of
        AcceptedDeploy _ _ \<Rightarrow>
          finalize_deploy env db st finalize_state confirmed_transaction GlobalCache
      | RejectedDeploy _ _ _ \<Rightarrow>
          finalize_deploy env db st finalize_state confirmed_transaction GlobalCache
      | _ \<Rightarrow> finalize_execute env db st finalize_state confirmed_transaction GlobalCache)"

text \<open>
  The loop of \<^verbatim>\<open>finalize_block\<close> (lines 230-270) over the block's transactions. The
  state is the store of the caches and the storage; an exception is returned with the
  state it leaves behind.
\<close>

fun finalize_block_loop ::
  "env \<Rightarrow> FinalizeState \<Rightarrow> ConfirmedTransaction list \<Rightarrow> string option list \<Rightarrow> store \<times> db \<Rightarrow>
   (error + string option list) \<times> (store \<times> db)" where
  "finalize_block_loop env finalize_state [] reject_reasons s = (Inr reject_reasons, s)"
| "finalize_block_loop env finalize_state (confirmed_transaction # rest) reject_reasons (st, db) =
     (case finalize_transaction env db st finalize_state confirmed_transaction of
        (Inl e, st') \<Rightarrow> (Inl e, (st', db))
      | (Inr (expected_operations, operations, reject_reason), st') \<Rightarrow>
          (case validate_operations expected_operations operations st' of
             (Inl e, st'') \<Rightarrow> (Inl e, (st'', db))
           | (Inr _, st'') \<Rightarrow>
               (case execute_operations db operations of
                  (Inl e, db') \<Rightarrow> (Inl e, (st'', db'))
                | (Inr _, db') \<Rightarrow>
                    finalize_block_loop env finalize_state rest
                      (reject_reasons @ [reject_reason]) (st'', db'))))"

definition finalize_block ::
  "env \<Rightarrow> Block \<Rightarrow> store \<times> db \<Rightarrow> (error + string option list) \<times> (store \<times> db)" where
  "finalize_block env block s =
     finalize_block_loop env (FinalizeState block) (block_transactions block) [] s"

subsection \<open>The preview route: api/execute\_routes.py\<close>

text \<open>
  The dict \<^verbatim>\<open>upd\<close> of a mapping update in the response; \<open>u_type\<close> is
  \<^verbatim>\<open>operation_type.name\<close>.
\<close>

fun type_name :: "FinalizeOperationType \<Rightarrow> string" where
  "type_name Type_InitializeMapping = ''InitializeMapping''"
| "type_name Type_InsertKeyValue = ''InsertKeyValue''"
| "type_name Type_UpdateKeyValue = ''UpdateKeyValue''"
| "type_name Type_RemoveKeyValue = ''RemoveKeyValue''"
| "type_name Type_RemoveMapping = ''RemoveMapping''"

record mapping_update =
  u_type :: string
  u_mapping_id :: Field
  u_index :: nat
  u_key_id :: Field
  u_value_id :: Field
  u_mapping :: string
  u_key :: Plaintext
  u_value :: Plaintext

text \<open>
  The loop of lines 68-92 of \<^verbatim>\<open>preview_finalize_route\<close> over the operations that
  \<^verbatim>\<open>preview_finalize_execution\<close> returned. The five kinds are all the kinds, so the
  final \<^verbatim>\<open>else\<close> has no input.
\<close>

fun preview_updates :: "operation list \<Rightarrow> error + mapping_update list" where
  "preview_updates [] = Inr []"
| "preview_updates (operation # result) =
     (case op_type operation of
        Type_InitializeMapping \<Rightarrow>
          Inl (RuntimeError ''InitializeMapping should not be returned by preview_finalize_execution (only used in deployments)'')
      | Type_InsertKeyValue \<Rightarrow>
          Inl (RuntimeError ''InsertKeyValue should not be returned by preview_finalize_execution (only used in tests)'')
      | Type_UpdateKeyValue \<Rightarrow>
          bind_err (py_get ''index'' (op_index operation)) (\<lambda>index.
          bind_err (py_get ''key_id'' (op_key_id operation)) (\<lambda>key_id.
          bind_err (py_get ''value_id'' (op_value_id operation)) (\<lambda>value_id.
          bind_err (py_get ''mapping'' (op_mapping operation)) (\<lambda>mapping.
          bind_err (py_get ''key'' (op_key operation)) (\<lambda>key.
          bind_err (py_get ''value'' (op_value operation)) (\<lambda>val.
          bind_err (preview_updates result) (\<lambda>updates.
          Inr (\<lparr>u_type = type_name (op_type operation), u_mapping_id = op_mapping_id operation,
                 u_index = index, u_key_id = key_id, u_value_id = value_id,
                 u_mapping = mapping, u_key = key, u_value = val\<rparr> # updates))))))))
      | Type_RemoveKeyValue \<Rightarrow> Inl NotImplementedError
      | Type_RemoveMapping \<Rightarrow>
          Inl (RuntimeError ''RemoveMapping should not be returned by preview_finalize_execution (only used in tests)''))"

text \<open>
  Lines 64-93 of the route, for the outcome of \<^verbatim>\<open>preview_finalize_execution\<close>: an
  ExecuteError becomes a client error (status 400), any other exception is raised, and a
  result becomes the response with its mapping updates.
\<close>

datatype response = JSONResponse_mapping_updates "mapping_update list" | JSONResponse_error nat

definition preview_finalize_response :: "error + operation list \<Rightarrow> error + response" where
  "preview_finalize_response outcome =
     (case outcome of
        Inl e \<Rightarrow>
          (case e of
             ExecuteError _ _ _ \<Rightarrow> Inr (JSONResponse_error 400)
           | _ \<Rightarrow> Inl e)
      | Inr result \<Rightarrow>
          (case preview_updates result of
             Inl e \<Rightarrow> Inl e
           | Inr updates \<Rightarrow> Inr (JSONResponse_mapping_updates updates)))"

subsection \<open>The validation rule, in the words of the specification\<close>

text \<open>
  The specification's pairwise rule: the kinds are equal, the mapping identifiers are
  equal, for UpdateKeyValue the key and value identifiers are equal, for RemoveKeyValue
  the key identifier is equal.
\<close>

definition operation_fields_match :: "FinalizeOperation \<Rightarrow> operation \<Rightarrow> bool" where
  "operation_fields_match e a =
     (fo_type e = op_type a \<and> fo_mapping_id e = op_mapping_id a \<and>
      (case e of
         UpdateKeyValue _ key_id value_id \<Rightarrow>
           op_key_id a = Some key_id \<and> op_value_id a = Some value_id
       | RemoveKeyValue _ key_id \<Rightarrow> op_key_id a = Some key_id
       | _ \<Rightarrow> True))"

text \<open>The kinds of expected operation for which lines 252-259 have a branch.\<close>

fun checked_kind :: "FinalizeOperation \<Rightarrow> bool" where
  "checked_kind (InitializeMapping _) = True"
| "checked_kind (UpdateKeyValue _ _ _) = True"
| "checked_kind (RemoveKeyValue _ _) = True"
| "checked_kind _ = False"

subsection \<open>Concrete programs, transactions and collaborators\<close>

text \<open>
  Program \<^verbatim>\<open>p.aleo\<close> calls \<^verbatim>\<open>a.aleo/fa\<close> and then \<^verbatim>\<open>b.aleo/fb\<close>, passes both futures to
  its finalize, and awaits the second parameter (the future of \<open>fb\<close>) before the first.
  The function \<open>fb\<close> itself calls \<^verbatim>\<open>c.aleo/fc\<close> and awaits it.
\<close>

definition program_a :: Program where
  "program_a =
     \<lparr>p_id = ''a.aleo'',
      p_functions = [''fa'' \<mapsto> \<lparr>fn_name = ''fa'', fn_instructions = [], fn_finalize = Some []\<rparr>],
      p_mappings = []\<rparr>"

definition program_b :: Program where
  "program_b =
     \<lparr>p_id = ''b.aleo'',
      p_functions = [''fb'' \<mapsto>
        \<lparr>fn_name = ''fb'',
         fn_instructions =
           [CallInstruction (LocatorCallOperator ''c.aleo'' ''fc'') [LocatorRegister 4],
            AsyncInstruction [RegisterOperand (LocatorRegister 4)]],
         fn_finalize = Some [AwaitCommand (LocatorRegister 0)]\<rparr>],
      p_mappings = []\<rparr>"

definition program_c :: Program where
  "program_c =
     \<lparr>p_id = ''c.aleo'',
      p_functions = [''fc'' \<mapsto> \<lparr>fn_name = ''fc'', fn_instructions = [], fn_finalize = Some []\<rparr>],
      p_mappings = []\<rparr>"

definition program_p :: Program where
  "program_p =
     \<lparr>p_id = ''p.aleo'',
      p_functions = [''main'' \<mapsto>
        \<lparr>fn_name = ''main'',
         fn_instructions =
           [CallInstruction (LocatorCallOperator ''a.aleo'' ''fa'') [LocatorRegister 1],
            CallInstruction (LocatorCallOperator ''b.aleo'' ''fb'') [LocatorRegister 2],
            AsyncInstruction [RegisterOperand (LocatorRegister 1), RegisterOperand (LocatorRegister 2)]],
         fn_finalize = Some [AwaitCommand (LocatorRegister 1), AwaitCommand (LocatorRegister 0)]\<rparr>],
      p_mappings = []\<rparr>"

text \<open>A token program with two mappings and a function whose finalize fails.\<close>

definition program_token :: Program where
  "program_token =
     \<lparr>p_id = ''token.aleo'',
      p_functions = [''transfer'' \<mapsto>
        \<lparr>fn_name = ''transfer'', fn_instructions = [], fn_finalize = Some []\<rparr>],
      p_mappings = [(''account'', (''address'', ''u64'')), (''supply'', (''u8'', ''u64''))]\<rparr>"

definition program_credits :: Program where
  "program_credits =
     \<lparr>p_id = ''credits.aleo'',
      p_functions = [''fee_public'' \<mapsto>
        \<lparr>fn_name = ''fee_public'', fn_instructions = [], fn_finalize = Some []\<rparr>],
      p_mappings = [(''account'', (''address'', ''u64''))]\<rparr>"

definition example_programs :: "string \<Rightarrow> Program option" where
  "example_programs =
     [''a.aleo'' \<mapsto> program_a, ''b.aleo'' \<mapsto> program_b, ''c.aleo'' \<mapsto> program_c,
      ''p.aleo'' \<mapsto> program_p,
      ''token.aleo'' \<mapsto> program_token, ''credits.aleo'' \<mapsto> program_credits]"

definition example_call_graph :: "Program \<Rightarrow> Identifier \<Rightarrow> error + CallGraphNode list" where
  "example_call_graph program function_name =
     (if p_id program = ''p.aleo''
      then Inr [CallGraphNode 0 ''a.aleo/fa'' [],
                CallGraphNode 2 ''b.aleo/fb'' [CallGraphNode 1 ''c.aleo/fc'' []]]
      else Inr [])"

text \<open>The operation that the fee finalize of the example yields.\<close>

definition fee_operation :: operation where
  "fee_operation =
     (op_dict Type_UpdateKeyValue 5)
       \<lparr>op_index := Some 0, op_key_id := Some 11, op_value_id := Some 12,
        op_mapping := Some ''account'', op_key := Some ''aleo1payer'', op_value := Some ''90u64'',
        op_program_name := Some ''credits.aleo'', op_mapping_name := Some ''account'',
        op_from_transaction := Some True, op_height := Some 10\<rparr>"

text \<open>
  A finalizer that charges the fee with one update, and fails in \<^verbatim>\<open>transfer\<close> at the
  transition \<^verbatim>\<open>t1\<close>.
\<close>

definition example_finalizer ::
  "db \<Rightarrow> store \<Rightarrow> FinalizeState \<Rightarrow> TransitionID list \<Rightarrow> TransitionID set \<Rightarrow> Program \<Rightarrow>
   Identifier \<Rightarrow> Value list \<Rightarrow> cache_ref \<Rightarrow> cache_ref \<Rightarrow> bool \<Rightarrow> (error + operation list) \<times> store" where
  "example_finalizer db st finalize_state transition_ids rejected program function_name inputs
     mapping_cache local_mapping_cache allow_state_change =
     (if function_name = ''fee_public'' then (Inr [fee_operation], st)
      else if function_name = ''transfer''
      then (Inl (ExecuteError ''integer overflow'' ''t1'' ''add r0 r1 into r2''), st)
      else (Inr [], st))"

definition example_env :: env where
  "example_env =
     \<lparr>get_program = example_programs, call_graph = example_call_graph,
      cached_get_mapping_id = (\<lambda>program_id mapping. length program_id + length mapping),
      execute_finalizer = example_finalizer\<rparr>"

definition private_fee :: Fee where
  "private_fee =
     \<lparr>transition_of_fee =
        \<lparr>t_id = ''tf'', t_program_id = ''credits.aleo'', t_function_name = ''fee_private'',
         t_outputs = [OtherTransitionOutput]\<rparr>\<rparr>"

definition public_fee :: Fee where
  "public_fee =
     \<lparr>transition_of_fee =
        \<lparr>t_id = ''tf'', t_program_id = ''credits.aleo'', t_function_name = ''fee_public'',
         t_outputs = [FutureTransitionOutput
                        (Some (Future ''credits.aleo'' ''fee_public'' [PlaintextArgument ''aleo1payer'']))]\<rparr>\<rparr>"



definition example_block :: Block where
  "example_block = \<lparr>block_height = 10, block_transactions = []\<rparr>"

text \<open>A store whose process-wide cache holds the mapping 5.\<close>

definition example_store :: store where
  "example_store = (\<lambda>r. Map.empty)(GlobalCache := [5 \<mapsto> Map.empty])"

text \<open>
  Deployments of the token program with a private fee: one whose expected operations are
  the two initializations, one that expects a single operation, and one that expects
  another mapping identifier for the second.
\<close>

definition good_deploy :: ConfirmedTransaction where
  "good_deploy =
     AcceptedDeploy (DeployTransaction \<lparr>deployment_program = program_token\<rparr> private_fee)
       [InitializeMapping 17, InitializeMapping 16]"

definition short_deploy :: ConfirmedTransaction where
  "short_deploy =
     AcceptedDeploy (DeployTransaction \<lparr>deployment_program = program_token\<rparr> private_fee)
       [InitializeMapping 17]"

definition wrong_deploy :: ConfirmedTransaction where
  "wrong_deploy =
     AcceptedDeploy (DeployTransaction \<lparr>deployment_program = program_token\<rparr> private_fee)
       [InitializeMapping 17, InitializeMapping 99]"

definition mismatch_block :: Block where
  "mismatch_block = \<lparr>block_height = 10, block_transactions = [short_deploy]\<rparr>"


definition orphan_fee_transition :: Transition where
  "orphan_fee_transition =
     \<lparr>t_id = ''tf'', t_program_id = ''credits.aleo'', t_function_name = ''fee_public'',
      t_outputs = [FutureTransitionOutput (Some (Future ''gone.aleo'' ''fee_public'' []))]\<rparr>"









section \<open>Properties\<close>

subsection \<open>Validation of the operations of a transaction\<close>

lemma check_operation_Inr_iff:
  "check_operation e a = Inr () \<longleftrightarrow> checked_kind e \<and> operation_fields_match e a"
  by (cases e) (auto simp: check_operation_def operation_fields_match_def split: option.splits)

lemma check_operations_Inr_iff:
  "length es = length as \<Longrightarrow>
   fst (check_operations (zip es as) st) = Inr () \<longleftrightarrow>
   list_all2 (\<lambda>e a. checked_kind e \<and> operation_fields_match e a) es as"
proof (induction es as rule: list_induct2)
  case Nil
  then show ?case by simp
next
  case (Cons e es a as)
  show ?case
  proof (cases "check_operation e a")
    case (Inl err)
    then have "\<not> (checked_kind e \<and> operation_fields_match e a)"
      using check_operation_Inr_iff [of e a] by simp
    with Inl show ?thesis by (cases err) auto
  next
    case (Inr u)
    then have "checked_kind e \<and> operation_fields_match e a"
      using check_operation_Inr_iff [of e a] by simp
    with Inr Cons.IH show ?thesis by simp
  qed
qed

text \<open>
  Claim C3, as amended. For expected and actual operation lists of equal length,
  validation succeeds if and only if at every position the expected operation is an
  InitializeMapping, UpdateKeyValue or RemoveKeyValue operation, the kinds are equal, the
  mapping identifiers are equal, for UpdateKeyValue the key and value identifiers are
  equal, and for RemoveKeyValue the key identifier is equal.
\<close>

theorem validation_iff_checked_fields:
  assumes "length expected_operations = length operations"
  shows "fst (validate_operations expected_operations operations st) = Inr () \<longleftrightarrow>
         (\<forall>i < length expected_operations.
            checked_kind (expected_operations ! i) \<and>
            operation_fields_match (expected_operations ! i) (operations ! i))"
  using assms check_operations_Inr_iff [OF assms, of st]
  by (simp add: validate_operations_def list_all2_conv_all_nth)

theorem validation_iff_checked_fields_witness:
  "length [InitializeMapping 3, UpdateKeyValue 5 11 12]
     = length [op_dict Type_InitializeMapping 3, fee_operation] \<and>
   fst (validate_operations [InitializeMapping 3, UpdateKeyValue 5 11 12]
          [op_dict Type_InitializeMapping 3, fee_operation] example_store) = Inr ()"
proof -
  have len: "length [InitializeMapping 3, UpdateKeyValue 5 11 12]
      = length [op_dict Type_InitializeMapping 3, fee_operation]"
    by simp
  have "\<forall>i < length [InitializeMapping 3, UpdateKeyValue 5 11 12].
          checked_kind ([InitializeMapping 3, UpdateKeyValue 5 11 12] ! i) \<and>
          operation_fields_match ([InitializeMapping 3, UpdateKeyValue 5 11 12] ! i)
            ([op_dict Type_InitializeMapping 3, fee_operation] ! i)"
    by (simp add: less_Suc_eq operation_fields_match_def op_dict_def fee_operation_def nth_Cons')
  with validation_iff_checked_fields [OF len, of example_store]
  have "fst (validate_operations [InitializeMapping 3, UpdateKeyValue 5 11 12]
          [op_dict Type_InitializeMapping 3, fee_operation] example_store) = Inr ()"
    by blast
  with len show ?thesis by simp
qed

text \<open>
  Claim C3, as stated, fails: an expected RemoveMapping operation and an actual operation
  of the same kind and mapping identifier agree on every field the claim names, and
  validation raises NotImplementedError (line 261).
\<close>

theorem validation_unchecked_kind_counterexample:
  "length [RemoveMapping 1] = length [op_dict Type_RemoveMapping 1] \<and>
   operation_fields_match (RemoveMapping 1) (op_dict Type_RemoveMapping 1) \<and>
   fst (validate_operations [RemoveMapping 1] [op_dict Type_RemoveMapping 1] example_store)
     = Inl NotImplementedError"
  by (simp add: operation_fields_match_def validate_operations_def check_operation_def op_dict_def)

subsection \<open>The cache after a validation fault\<close>

text \<open>A pairwise mismatch, a TypeError of the loop, leaves the process-wide cache empty.\<close>

lemma check_operations_TypeError_clears:
  "check_operations ps st = (Inl (TypeError m), st') \<Longrightarrow> st' GlobalCache = Map.empty"
  by (induction ps st rule: check_operations.induct)
     (auto split: sum.splits error.splits)

lemma pairwise_mismatch_clears_cache:
  assumes "length expected_operations = length operations"
    and "validate_operations expected_operations operations st = (Inl (TypeError m), st')"
  shows "st' GlobalCache = Map.empty"
  using assms by (auto simp: validate_operations_def dest: check_operations_TypeError_clears)

text \<open>
  Claim C1: every detected mismatch clears the process-wide cache before the fault
  propagates. The code does so for a pairwise mismatch only. For a block whose deploy
  yields two operations where one is expected, \<^verbatim>\<open>finalize_block\<close> raises the TypeError
  of the length check (line 244) and the cache still holds the mapping it held.
\<close>

theorem finalize_block_length_mismatch_keeps_cache:
  "finalize_block example_env mismatch_block (example_store, [])
     = (Inl (TypeError ''invalid finalize operation length''), (example_store, [])) \<and>
   example_store GlobalCache 5 = Some Map.empty"
  by (simp add: finalize_block_def mismatch_block_def short_deploy_def finalize_transaction_def
        finalize_deploy_def private_fee_def program_token_def validate_operations_def
        example_store_def Let_def)

subsection \<open>Commits, transaction by transaction\<close>

lemma finalize_block_loop_append:
  "finalize_block_loop env finalize_state (txs1 @ txs2) reject_reasons s =
     (case finalize_block_loop env finalize_state txs1 reject_reasons s of
        (Inl e, s') \<Rightarrow> (Inl e, s')
      | (Inr reject_reasons', s') \<Rightarrow>
          finalize_block_loop env finalize_state txs2 reject_reasons' s')"
proof (induction txs1 arbitrary: reject_reasons s)
  case Nil
  then show ?case by simp
next
  case (Cons ct txs1)
  obtain st db where s: "s = (st, db)" by (cases s)
  show ?case
    unfolding s
    by (simp add: Cons.IH split: prod.splits sum.splits)
qed

text \<open>
  Claim C2. When the transactions before \<open>confirmed_transaction\<close> have been finalized,
  leaving the storage \<open>db1\<close>, and the operations of \<open>confirmed_transaction\<close> fail
  validation (the length check or a pairwise check), \<^verbatim>\<open>finalize_block\<close> raises that
  fault with the storage still \<open>db1\<close>: the Operation Applier has not run for the failing
  transaction, and the commits of the earlier transactions are in place.
\<close>

theorem commit_only_after_validation:
  assumes earlier:
      "finalize_block_loop env finalize_state txs1 [] s0 = (Inr reject_reasons, (st1, db1))"
    and finalized:
      "finalize_transaction env db1 st1 finalize_state confirmed_transaction
         = (Inr (expected_operations, operations, reject_reason), st2)"
    and fault: "fst (validate_operations expected_operations operations st2) = Inl err"
  shows "\<exists>st'. finalize_block_loop env finalize_state (txs1 @ confirmed_transaction # txs2) [] s0
                 = (Inl err, (st', db1))"
proof -
  obtain st' where "validate_operations expected_operations operations st2 = (Inl err, st')"
    using fault by (cases "validate_operations expected_operations operations st2") auto
  with earlier finalized show ?thesis
    by (simp add: finalize_block_loop_append)
qed

theorem commit_only_after_validation_witness:
  "\<exists>st'. finalize_block_loop example_env (FinalizeState example_block)
            ([good_deploy] @ wrong_deploy # [good_deploy]) [] (example_store, [])
          = (Inl (TypeError ''invalid finalize mapping id''),
             (st', [initialize_mapping 17 ''token.aleo'' ''account'',
                    initialize_mapping 16 ''token.aleo'' ''supply'']))"
proof -
  let ?ops = "[initialize_mapping_operation example_env program_token ''account'',
               initialize_mapping_operation example_env program_token ''supply'']"
  let ?db1 = "[initialize_mapping 17 ''token.aleo'' ''account'',
               initialize_mapping 16 ''token.aleo'' ''supply'']"
  have earlier: "finalize_block_loop example_env (FinalizeState example_block) [good_deploy] []
      (example_store, []) = (Inr [None], (example_store, ?db1))"
    by (simp add: good_deploy_def finalize_transaction_def finalize_deploy_def private_fee_def
          program_token_def Let_def validate_operations_def check_operation_def
          initialize_mapping_operation_def op_dict_def example_env_def execute_operation_def
          py_get_def)
  have finalized: "finalize_transaction example_env ?db1 example_store
      (FinalizeState example_block) wrong_deploy
      = (Inr ([InitializeMapping 17, InitializeMapping 99], ?ops, None), example_store)"
    by (simp add: wrong_deploy_def finalize_transaction_def finalize_deploy_def private_fee_def
          program_token_def Let_def)
  have fault: "fst (validate_operations [InitializeMapping 17, InitializeMapping 99] ?ops
      example_store) = Inl (TypeError ''invalid finalize mapping id'')"
    by (simp add: validate_operations_def check_operation_def
          initialize_mapping_operation_def op_dict_def example_env_def program_token_def)
  show ?thesis
    by (rule commit_only_after_validation [OF earlier finalized fault])
qed

subsection \<open>Fee finalization\<close>

text \<open>
  Claim C8, as amended. \<^verbatim>\<open>_execute_public_fee\<close> raises TypeError when the fee
  transition does not target \<^verbatim>\<open>fee_public\<close> of \<^verbatim>\<open>credits.aleo\<close> or its first output is
  not a future output, IndexError when it has no output, and RuntimeError when the future
  value of the first output is absent or the program of the future is not found;
  otherwise it returns what the finalizer returns for the future's function, called once
  with the one-element order of the fee transition's id and an empty rejected set.
\<close>

theorem execute_public_fee_cases:
  "(t_program_id fee_transition \<noteq> ''credits.aleo'' \<or> t_function_name fee_transition \<noteq> ''fee_public'' \<longrightarrow>
      execute_public_fee env db st finalize_state fee_transition mapping_cache
        local_mapping_cache allow_state_change
      = (Inl (TypeError ''not a fee transition''), st)) \<and>
   (t_program_id fee_transition = ''credits.aleo'' \<and> t_function_name fee_transition = ''fee_public'' \<longrightarrow>
      (t_outputs fee_transition = [] \<longrightarrow>
         execute_public_fee env db st finalize_state fee_transition mapping_cache
           local_mapping_cache allow_state_change
         = (Inl IndexError, st)) \<and>
      (\<forall>rest. t_outputs fee_transition = OtherTransitionOutput # rest \<longrightarrow>
         execute_public_fee env db st finalize_state fee_transition mapping_cache
           local_mapping_cache allow_state_change
         = (Inl (TypeError ''invalid fee transition output''), st)) \<and>
      (\<forall>rest. t_outputs fee_transition = FutureTransitionOutput None # rest \<longrightarrow>
         execute_public_fee env db st finalize_state fee_transition mapping_cache
           local_mapping_cache allow_state_change
         = (Inl (RuntimeError ''invalid fee transition output''), st)) \<and>
      (\<forall>future rest. t_outputs fee_transition = FutureTransitionOutput (Some future) # rest \<longrightarrow>
         (get_program env (f_program_id future) = None \<longrightarrow>
            execute_public_fee env db st finalize_state fee_transition mapping_cache
              local_mapping_cache allow_state_change
            = (Inl (RuntimeError ''program not found''), st)) \<and>
         (\<forall>program. get_program env (f_program_id future) = Some program \<longrightarrow>
            execute_public_fee env db st finalize_state fee_transition mapping_cache
              local_mapping_cache allow_state_change
            = execute_finalizer env db st finalize_state [t_id fee_transition] {} program
                (f_function_name future) (load_input_from_arguments (f_arguments future))
                mapping_cache local_mapping_cache allow_state_change)))"
  by (auto simp: execute_public_fee_def py_first_def)


theorem execute_public_fee_cases_witness:
  "execute_public_fee example_env [] example_store (FinalizeState example_block)
     (transition_of_fee public_fee) GlobalCache LocalCache True
     = example_finalizer [] example_store (FinalizeState example_block) [''tf''] {}
         program_credits ''fee_public'' [PlaintextValue ''aleo1payer''] GlobalCache LocalCache True \<and>
   execute_public_fee example_env [] example_store (FinalizeState example_block)
     (transition_of_fee private_fee) GlobalCache LocalCache True
     = (Inl (TypeError ''not a fee transition''), example_store)"
  using execute_public_fee_cases [of "transition_of_fee public_fee" example_env "[]"
          example_store "FinalizeState example_block" GlobalCache LocalCache True]
        execute_public_fee_cases [of "transition_of_fee private_fee" example_env "[]"
          example_store "FinalizeState example_block" GlobalCache LocalCache True]
  by (simp add: public_fee_def private_fee_def example_env_def example_programs_def)

text \<open>
  Claim C8, as stated, fails: a fee transition that targets \<^verbatim>\<open>credits.aleo/fee_public\<close>
  and whose first output carries a present future raises RuntimeError (line 32), where
  the claim has it execute the finalize scope, when the program of the future is not
  found.
\<close>

theorem execute_public_fee_program_not_found_counterexample:
  "t_program_id orphan_fee_transition = ''credits.aleo'' \<and>
   t_function_name orphan_fee_transition = ''fee_public'' \<and>
   py_first (t_outputs orphan_fee_transition)
     = Inr (FutureTransitionOutput (Some (Future ''gone.aleo'' ''fee_public'' []))) \<and>
   execute_public_fee example_env [] example_store (FinalizeState example_block)
     orphan_fee_transition GlobalCache LocalCache True
     = (Inl (RuntimeError ''program not found''), example_store)"
  by (simp add: execute_public_fee_def py_first_def orphan_fee_transition_def example_env_def
        example_programs_def)

subsection \<open>Deployments\<close>




text \<open>
  Claim C10. A deploy whose fee transition is not \<^verbatim>\<open>fee_public\<close> yields no fee
  operation: an accepted deploy returns exactly one operation of kind InitializeMapping
  for each mapping of the program, in declaration order, each with the mapping id of the
  program id and the mapping name; a rejected deploy returns the empty list. No finalizer
  runs and the caches are untouched.
\<close>

theorem finalize_deploy_private_fee:
  assumes "t_function_name (transition_of_fee fee) \<noteq> ''fee_public''"
  shows "finalize_deploy env db st finalize_state
           (AcceptedDeploy (DeployTransaction deployment fee) finalize) mapping_cache
         = (Inr (finalize,
                 map (\<lambda>mapping.
                        \<lparr>op_type = Type_InitializeMapping,
                         op_mapping_id =
                           cached_get_mapping_id env (p_id (deployment_program deployment)) mapping,
                         op_program_id = Some (p_id (deployment_program deployment)),
                         op_mapping = Some mapping, op_index = None, op_key_id = None,
                         op_value_id = None, op_key = None, op_value = None,
                         op_program_name = None, op_mapping_name = None,
                         op_from_transaction = None, op_height = None\<rparr>)
                   (map fst (p_mappings (deployment_program deployment))),
                 None), st) \<and>
         (deploy_fee transaction = Some fee \<longrightarrow>
          finalize_deploy env db st finalize_state
            (RejectedDeploy transaction rejected finalize) mapping_cache
          = (Inr (finalize, [], Some ''(detailed reason not available)''), st))"
  using assms
  by (simp add: finalize_deploy_def Let_def initialize_mapping_operation_def op_dict_def)

theorem finalize_deploy_private_fee_witness:
  "t_function_name (transition_of_fee private_fee) \<noteq> ''fee_public'' \<and>
   deploy_fee (FeeTransaction private_fee) = Some private_fee \<and>
   finalize_deploy example_env [] example_store (FinalizeState example_block)
     (AcceptedDeploy (DeployTransaction \<lparr>deployment_program = program_token\<rparr> private_fee)
        [InitializeMapping 17, InitializeMapping 16]) GlobalCache
   = (Inr ([InitializeMapping 17, InitializeMapping 16],
           [\<lparr>op_type = Type_InitializeMapping, op_mapping_id = 17,
             op_program_id = Some ''token.aleo'', op_mapping = Some ''account'',
             op_index = None, op_key_id = None, op_value_id = None, op_key = None,
             op_value = None, op_program_name = None, op_mapping_name = None,
             op_from_transaction = None, op_height = None\<rparr>,
            \<lparr>op_type = Type_InitializeMapping, op_mapping_id = 16,
             op_program_id = Some ''token.aleo'', op_mapping = Some ''supply'',
             op_index = None, op_key_id = None, op_value_id = None, op_key = None,
             op_value = None, op_program_name = None, op_mapping_name = None,
             op_from_transaction = None, op_height = None\<rparr>],
           None), example_store) \<and>
   finalize_deploy example_env [] example_store (FinalizeState example_block)
     (RejectedDeploy (FeeTransaction private_fee) RejectedDeployment []) GlobalCache
   = (Inr ([], [], Some ''(detailed reason not available)''), example_store)"
proof -
  have not_public: "t_function_name (transition_of_fee private_fee) \<noteq> ''fee_public''"
    by (simp add: private_fee_def)
  from finalize_deploy_private_fee [OF not_public, of example_env "[]" example_store
      "FinalizeState example_block" "\<lparr>deployment_program = program_token\<rparr>"
      "[InitializeMapping 17, InitializeMapping 16]" GlobalCache "FeeTransaction private_fee"
      RejectedDeployment]
    finalize_deploy_private_fee [OF not_public, of example_env "[]" example_store
      "FinalizeState example_block" "\<lparr>deployment_program = program_token\<rparr>"
      "[]" GlobalCache "FeeTransaction private_fee" RejectedDeployment]
    not_public
  show ?thesis
    by (simp add: program_token_def example_env_def)
qed

subsection \<open>The preview route\<close>

lemma bind_err_Inr_iff:
  "bind_err m f = Inr y \<longleftrightarrow> (\<exists>x. m = Inr x \<and> f x = Inr y)"
  by (cases m) simp_all

lemma preview_updates_Inr:
  "preview_updates result = Inr updates \<Longrightarrow>
   list_all (\<lambda>a. op_type a = Type_UpdateKeyValue) result \<and>
   list_all (\<lambda>u. u_type u = ''UpdateKeyValue'') updates \<and>
   length updates = length result"
proof (induction result arbitrary: updates)
  case Nil
  then show ?case by simp
next
  case (Cons operation result)
  from Cons.prems have kind: "op_type operation = Type_UpdateKeyValue"
    by (cases "op_type operation") simp_all
  with Cons.prems obtain u updates' where
    rest: "preview_updates result = Inr updates'"
    and updates: "updates = u # updates'"
    and u: "u_type u = ''UpdateKeyValue''"
    by (auto simp: bind_err_Inr_iff)
  from Cons.IH [OF rest] kind updates u show ?case
    by simp
qed

text \<open>
  Claim C9. A response of the preview route with mapping updates holds an update for
  each operation of the result, every one of the kind UpdateKeyValue; when the result
  holds an operation of another kind the route raises and returns no response.
\<close>

theorem preview_only_update_key_value:
  "(preview_finalize_response (Inr result) = Inr (JSONResponse_mapping_updates updates) \<longrightarrow>
      list_all (\<lambda>u. u_type u = ''UpdateKeyValue'') updates \<and>
      list_all (\<lambda>a. op_type a = Type_UpdateKeyValue) result \<and>
      length updates = length result) \<and>
   ((\<exists>a \<in> set result. op_type a \<noteq> Type_UpdateKeyValue) \<longrightarrow>
      (\<exists>e. preview_finalize_response (Inr result) = Inl e))"
proof (cases "preview_updates result")
  case (Inl e)
  then show ?thesis
    by (simp add: preview_finalize_response_def)
next
  case (Inr us)
  from preview_updates_Inr [OF Inr] Inr show ?thesis
    by (auto simp: preview_finalize_response_def list_all_iff)
qed

theorem preview_only_update_key_value_witness:
  "preview_finalize_response (Inr [fee_operation])
     = Inr (JSONResponse_mapping_updates
         [\<lparr>u_type = ''UpdateKeyValue'', u_mapping_id = 5, u_index = 0, u_key_id = 11,
           u_value_id = 12, u_mapping = ''account'', u_key = ''aleo1payer'',
           u_value = ''90u64''\<rparr>]) \<and>
   op_type (op_dict Type_RemoveKeyValue 5) \<noteq> Type_UpdateKeyValue \<and>
   preview_finalize_response (Inr [fee_operation, op_dict Type_RemoveKeyValue 5])
     = Inl NotImplementedError"
  using preview_only_update_key_value [of "[fee_operation]"]
        preview_only_update_key_value [of "[fee_operation, op_dict Type_RemoveKeyValue 5]"]
  by (simp add: preview_finalize_response_def fee_operation_def op_dict_def py_get_def)

subsection \<open>Executions whose finalize fails\<close>














subsection \<open>The order of the awaits\<close>
















end
